theory Spec2Isabelle
  imports Complex_Main
begin

section \<open>The balance-board measurement engine of \<open>weii/cli.py\<close>\<close>

text \<open>
  The development embeds the functions \<open>get_raw_measurement\<close>, \<open>read_data\<close>,
  \<open>measure_weight\<close> and \<open>measure_thread\<close> of \<open>src/weii/cli.py\<close>.
  Python floats are idealised as reals: every float the code handles is an integer raw
  value divided by 100, a sum of four of those, or a median of such sums, so no
  not-a-number and no infinity occurs; rounding is not modelled.
\<close>

subsection \<open>Input events\<close>

text \<open>
  An \<open>evdev\<close> input event, reduced to the two attributes the code reads:
  \<open>event.code\<close> and \<open>event.value\<close> (the code never looks at \<open>event.type\<close>).
\<close>

record input_event =
  ev_code :: nat
  ev_value :: int

text \<open>
  Modelled from the spec: the event-code constants of \<open>evdev.ecodes\<close> are not under
  \<open>src/\<close>. The spec's \<open>AxisEvent\<close> distinguishes the four axes, the button and the
  two sync markers; the numbers below are the ones of the Linux header
  \<open>input-event-codes.h\<close> that \<open>evdev\<close> re-exports. Only their being pairwise distinct
  matters to the results.
\<close>

definition ABS_HAT0X :: nat where "ABS_HAT0X = 16"
definition ABS_HAT0Y :: nat where "ABS_HAT0Y = 17"
definition ABS_HAT1X :: nat where "ABS_HAT1X = 18"
definition ABS_HAT1Y :: nat where "ABS_HAT1Y = 19"
definition BTN_A :: nat where "BTN_A = 304"
definition SYN_REPORT :: nat where "SYN_REPORT = 0"
definition SYN_DROPPED :: nat where "SYN_DROPPED = 3"

lemmas ecodes_defs =
  ABS_HAT0X_def ABS_HAT0Y_def ABS_HAT1X_def ABS_HAT1Y_def BTN_A_def SYN_REPORT_def
  SYN_DROPPED_def

text \<open>
  One call of \<open>device.read_one()\<close>: no event is pending (\<open>None\<close>), an event, or the
  call raises (the device went away). The device is the list of the results its
  successive reads will give.
\<close>

datatype read = NoEvent | Event input_event | ReadError

subsection \<open>\<open>get_raw_measurement\<close>\<close>

text \<open>
  The four slots \<open>data = [None] * 4\<close>: top left, top right, bottom left, bottom right.
\<close>

type_synonym slots = "real option list"

definition unset :: slots where
  "unset = [None, None, None, None]"

text \<open>
  What a call of \<open>get_raw_measurement\<close> comes to on a finite run of reads:
  it returns \<open>sum(data)\<close>, it raises \<open>SystemExit\<close> (\<open>sys.exit\<close> on the board
  button), the read raises, or the reads run out with the \<open>while True\<close> loop still
  polling. The first three carry the reads left on the device, the last one the slots as
  the loop holds them. The \<open>debug\<close> print of an unexpected event is not modelled.
\<close>

datatype measurement =
    Measured real "read list"
  | Aborted "read list"
  | Failed "read list"
  | Polling slots

fun measure_loop :: "slots \<Rightarrow> read list \<Rightarrow> measurement" where
  "measure_loop data [] = Polling data"
| "measure_loop data (NoEvent # rest) = measure_loop data rest"
| "measure_loop data (ReadError # rest) = Failed rest"
| "measure_loop data (Event event # rest) =
     (if ev_code event = ABS_HAT1X then
        measure_loop (data[0 := Some (real_of_int (ev_value event) / 100)]) rest
      else if ev_code event = ABS_HAT0X then
        measure_loop (data[1 := Some (real_of_int (ev_value event) / 100)]) rest
      else if ev_code event = ABS_HAT0Y then
        measure_loop (data[2 := Some (real_of_int (ev_value event) / 100)]) rest
      else if ev_code event = ABS_HAT1Y then
        measure_loop (data[3 := Some (real_of_int (ev_value event) / 100)]) rest
      else if ev_code event = BTN_A then Aborted rest
      else if ev_code event = SYN_DROPPED then measure_loop data rest
      else if ev_code event = SYN_REPORT \<and> ev_value event = 3 then measure_loop data rest
      else if ev_code event = SYN_REPORT \<and> ev_value event = 0 then
        (if None \<in> set data then measure_loop unset rest
         else Measured (foldl (+) 0 (map the data)) rest)
      else measure_loop data rest)"

definition get_raw_measurement :: "read list \<Rightarrow> measurement" where
  "get_raw_measurement reads = measure_loop unset reads"

text \<open>The events of the spec's data model, as the device delivers them.\<close>

definition axis :: "nat \<Rightarrow> int \<Rightarrow> input_event" where
  "axis c v = \<lparr>ev_code = c, ev_value = v\<rparr>"

definition sync_report :: "int \<Rightarrow> input_event" where
  "sync_report flag = \<lparr>ev_code = SYN_REPORT, ev_value = flag\<rparr>"

definition button_press :: "int \<Rightarrow> input_event" where
  "button_press v = \<lparr>ev_code = BTN_A, ev_value = v\<rparr>"

subsection \<open>The state the worker reads and writes\<close>

text \<open>
  The status texts. A formatted number is kept as the number (\<open>:.1f\<close> is presentation);
  \<open>Disconnecting s\<close> is \<open>s\<close> with the line \<open>Disconnecting...\<close> appended.
\<close>

datatype exn = SystemExit string | OSError | StatisticsError | AttributeError

datatype status =
    Waiting_for_board
  | Board_found
  | Stepped_off
  | Measurement_started
  | Measuring_progress nat int
  | Done_weight_kg real
  | Done_weight real
  | Disconnecting status
  | Error_message exn

text \<open>A call of \<open>subprocess.run\<close>: an argument vector, or a shell command: the template
  and the weight that replaces \<open>{weight}\<close> in it.\<close>

datatype subprocess = Run "string list" | Run_shell string real

text \<open>
  The world of one worker: what the device and the device lookup will answer, the global
  \<open>measuring\<close> as the worker finds it at its n-th look (another thread clears it), and
  what the worker has done so far.
\<close>

record world =
  feed :: "read list"
  lookups :: "bool list"
  measuring :: "nat \<Rightarrow> bool"
  looks :: nat
  closes :: nat
  status_message :: status
  device_found :: bool
  current_weight :: real
  ran :: "subprocess list"
  idle_added :: nat

text \<open>
  How a call ends: it returns a value, it raises, or the answers of the environment run
  out while it is still polling: it has not returned, and \<open>Stalled\<close> carries what
  it holds in its local variables at that point.
\<close>

datatype ('a, 's) outcome = Returned 'a world | Raised exn world | Stalled 's world

definition looked :: "world \<Rightarrow> world" where
  "looked w = w\<lparr>looks := Suc (looks w)\<rparr>"

definition close :: "world \<Rightarrow> world" where
  "close w = w\<lparr>closes := Suc (closes w)\<rparr>"

subsection \<open>\<open>read_data\<close>\<close>

lemma measure_loop_shorter:
  "measure_loop data reads = Measured m rest \<Longrightarrow> length rest < length reads"
  by (induction data reads rule: measure_loop.induct) (auto split: if_splits)

lemma get_raw_measurement_shorter:
  "get_raw_measurement reads = Measured m rest \<Longrightarrow> length rest < length reads"
  unfolding get_raw_measurement_def by (rule measure_loop_shorter)

text \<open>The two status updates of the loop body: after the first sample, and at every
  tenth sample.\<close>

definition started :: "real list \<Rightarrow> world \<Rightarrow> world" where
  "started data w =
     (if length data = 1 then w\<lparr>status_message := Measurement_started\<rparr> else w)"

definition progress :: "int \<Rightarrow> real list \<Rightarrow> world \<Rightarrow> world" where
  "progress samples data w =
     (if length data mod 10 = 0
      then w\<lparr>status_message := Measuring_progress (length data) samples\<rparr>
      else w)"

function read_loop ::
  "int \<Rightarrow> real \<Rightarrow> real list \<Rightarrow> world \<Rightarrow> (real list, real list) outcome" where
  "read_loop samples threshold data w =
     (if \<not> measuring w (looks w) then Returned data (close (looked w))
      else
        (case get_raw_measurement (feed w) of
           Aborted rest \<Rightarrow>
             Raised (SystemExit ''ERROR: User pressed board button while measuring, aborting.'')
               ((looked w)\<lparr>feed := rest\<rparr>)
         | Failed rest \<Rightarrow> Raised OSError ((looked w)\<lparr>feed := rest\<rparr>)
         | Polling d \<Rightarrow> Stalled data ((looked w)\<lparr>feed := []\<rparr>)
         | Measured measurement rest \<Rightarrow>
             (if data \<noteq> [] \<and> measurement < threshold then
                Returned data (close ((looked w)\<lparr>feed := rest, status_message := Stepped_off\<rparr>))
              else if data = [] \<and> measurement < threshold then
                read_loop samples threshold data ((looked w)\<lparr>feed := rest\<rparr>)
              else
                (let data = data @ [measurement];
                     w = started data ((looked w)\<lparr>feed := rest\<rparr>)
                 in if samples \<le> int (length data) then Returned data (close w)
                    else read_loop samples threshold data (progress samples data w)))))"
  by pat_completeness auto
termination
  by (relation "measure (\<lambda>(samples, threshold, data, w). length (feed w))")
    (auto simp: looked_def started_def progress_def dest: get_raw_measurement_shorter)

declare read_loop.simps [simp del]

definition read_data :: "int \<Rightarrow> real \<Rightarrow> world \<Rightarrow> (real list, real list) outcome" where
  "read_data samples threshold w = read_loop samples threshold [] w"

subsection \<open>The median and the final weight\<close>

text \<open>
  Modelled from the spec: \<open>statistics.median\<close> belongs to the Python standard library
  and is not under \<open>src/\<close>. The spec (4.3): it fails if the window is empty; otherwise
  it is, for an odd count, the middle value of the sorted sequence and, for an even count,
  the arithmetic mean of the two middle values. The library raises \<open>StatisticsError\<close>
  on empty data, which is the spec's \<open>InsufficientData\<close>.
\<close>

definition median :: "real list \<Rightarrow> exn + real" where
  "median data =
     (let data = sort data; n = length data in
      if n = 0 then Inl StatisticsError
      else if n mod 2 = 1 then Inr (data ! (n div 2))
      else (let i = n div 2 in Inr ((data ! (i - 1) + data ! i) / 2)))"

text \<open>
  The aggregation step of \<open>measure_weight\<close> and \<open>measure_thread\<close>:
  \<open>final_weight = statistics.median(weight_data)\<close>, then \<open>final_weight += adjust\<close>.
\<close>

definition final_weight :: "real list \<Rightarrow> real \<Rightarrow> exn + real" where
  "final_weight weight_data adjust =
     (case median weight_data of
        Inl e \<Rightarrow> Inl e
      | Inr m \<Rightarrow> Inr (m + adjust))"

subsection \<open>The disconnect address\<close>

text \<open>
  \<open>re.match(r"^([0-9a-f]{2}[:]){5}([0-9a-f]{2})$", disconnect_address, re.IGNORECASE)\<close>:
  five groups of two hexadecimal digits and a colon, two more hexadecimal digits, and
  then the end of the string; Python's \<open>$\<close> also matches just before a newline that
  ends the string.
\<close>

definition hex_digit :: "char \<Rightarrow> bool" where
  "hex_digit c \<longleftrightarrow> c \<in> set ''0123456789abcdefABCDEF''"

fun hex_groups :: "nat \<Rightarrow> string \<Rightarrow> string option" where
  "hex_groups 0 s = Some s"
| "hex_groups (Suc n) (a # b # c # s) =
     (if hex_digit a \<and> hex_digit b \<and> c = CHR '':'' then hex_groups n s else None)"
| "hex_groups (Suc n) s = None"

definition address_match :: "string \<Rightarrow> bool" where
  "address_match disconnect_address =
     (case hex_groups 5 disconnect_address of
        None \<Rightarrow> False
      | Some s \<Rightarrow>
          (case s of
             a # b # s \<Rightarrow> hex_digit a \<and> hex_digit b \<and> (s = [] \<or> s = [CHR 0x0A])
           | _ \<Rightarrow> False))"

text \<open>The two hooks that follow the measurement in both functions.\<close>

definition disconnect :: "string \<Rightarrow> world \<Rightarrow> world" where
  "disconnect disconnect_address w =
     (if disconnect_address \<noteq> [] then
        w\<lparr>status_message := Disconnecting (status_message w),
          ran := ran w @ [Run [''/usr/bin/env'', ''bluetoothctl'', ''disconnect'', disconnect_address]]\<rparr>
      else w)"

definition run_command :: "string option \<Rightarrow> real \<Rightarrow> world \<Rightarrow> world" where
  "run_command command weight w =
     (case command of
        None \<Rightarrow> w
      | Some c \<Rightarrow> if c \<noteq> [] then w\<lparr>ran := ran w @ [Run_shell c weight]\<rparr> else w)"

subsection \<open>\<open>measure_weight\<close>\<close>

text \<open>The loop \<open>while not fake\<close> that polls \<open>get_board_device\<close> until it finds the
  board (\<open>time.sleep\<close> is not modelled).\<close>

function measure_weight_wait :: "world \<Rightarrow> (unit, unit) outcome" where
  "measure_weight_wait w =
     (case lookups w of
        [] \<Rightarrow> Stalled () w
      | board # rest \<Rightarrow>
          if board then Returned () (w\<lparr>lookups := rest\<rparr>)
          else measure_weight_wait (w\<lparr>lookups := rest\<rparr>))"
  by pat_completeness auto
termination
  by (relation "measure (\<lambda>w. length (lookups w))") auto

declare measure_weight_wait.simps [simp del]

text \<open>The print of the terse mode is not modelled; \<open>[85.2] * 200\<close> is the fake data.\<close>

definition measure_weight ::
  "real \<Rightarrow> real \<Rightarrow> string \<Rightarrow> string option \<Rightarrow> bool \<Rightarrow> bool \<Rightarrow> world \<Rightarrow> (real, unit) outcome" where
  "measure_weight adjust minlimit disconnect_address command terse fake w =
     (if disconnect_address \<noteq> [] \<and> \<not> address_match disconnect_address then
        Raised (SystemExit ''ERROR: Invalid device address to disconnect specified.'') w
      else
        (case (if fake then Returned () (w\<lparr>status_message := Waiting_for_board\<rparr>)
               else measure_weight_wait (w\<lparr>status_message := Waiting_for_board\<rparr>)) of
           Stalled u w \<Rightarrow> Stalled () w
         | Raised e w \<Rightarrow> Raised e w
         | Returned u w \<Rightarrow>
             (case (if fake then Returned (replicate 200 (852 / 10)) (w\<lparr>status_message := Board_found\<rparr>)
                    else read_data 200 minlimit (w\<lparr>status_message := Board_found\<rparr>)) of
                Stalled d w \<Rightarrow> Stalled () w
              | Raised e w \<Rightarrow> Raised e w
              | Returned weight_data w \<Rightarrow>
                  (case final_weight weight_data adjust of
                     Inl e \<Rightarrow> Raised e w
                   | Inr weight \<Rightarrow>
                       Returned weight
                         (run_command command weight
                           (disconnect disconnect_address
                             (if terse then w else w\<lparr>status_message := Done_weight weight\<rparr>)))))))"

subsection \<open>\<open>measure_thread\<close>\<close>

text \<open>The loop \<open>while measuring and not board\<close>; it returns whether it has a board.\<close>

function measure_thread_wait :: "world \<Rightarrow> (bool, unit) outcome" where
  "measure_thread_wait w =
     (if \<not> measuring w (looks w) then Returned False (looked w)
      else
        (case lookups w of
           [] \<Rightarrow> Stalled () (looked w)
         | board # rest \<Rightarrow>
             if board then
               Returned True ((looked w)\<lparr>lookups := rest, status_message := Board_found,
                 device_found := True\<rparr>)
             else measure_thread_wait ((looked w)\<lparr>lookups := rest\<rparr>)))"
  by pat_completeness auto
termination
  by (relation "measure (\<lambda>w. length (lookups w))") (auto simp: looked_def)

declare measure_thread_wait.simps [simp del]

text \<open>
  The body of the \<open>try\<close>. When the wait ends without a board and the flag is set again
  at the next look, \<open>read_data(None, ...)\<close> looks at the flag once and then uses the
  missing device (\<open>read_one\<close> or \<open>close\<close>), which raises \<open>AttributeError\<close>.
  In \<open>weight_data and measuring\<close> the flag is looked at only when the data is not
  empty.
\<close>

definition measure_thread_try ::
  "real \<Rightarrow> real \<Rightarrow> string \<Rightarrow> string option \<Rightarrow> world \<Rightarrow> (unit, unit) outcome" where
  "measure_thread_try adjust minlimit disconnect_address command w =
     (case measure_thread_wait (w\<lparr>status_message := Waiting_for_board, device_found := False\<rparr>) of
        Stalled u w \<Rightarrow> Stalled () w
      | Raised e w \<Rightarrow> Raised e w
      | Returned board w \<Rightarrow>
          if \<not> measuring w (looks w) then Returned () (looked w)
          else
            (case (if board then read_data 200 minlimit (looked w)
                   else Raised AttributeError (looked (looked w))) of
               Stalled d w \<Rightarrow> Stalled () w
             | Raised e w \<Rightarrow> Raised e w
             | Returned weight_data w \<Rightarrow>
                 if weight_data = [] then Returned () w
                 else if \<not> measuring w (looks w) then Returned () (looked w)
                 else
                   (case final_weight weight_data adjust of
                      Inl e \<Rightarrow> Raised e (looked w)
                    | Inr weight \<Rightarrow>
                        Returned ()
                          (run_command command weight
                            (disconnect disconnect_address
                              ((looked w)\<lparr>current_weight := weight,
                                 status_message := Done_weight_kg weight\<rparr>))))))"

text \<open>
  \<open>except Exception\<close> catches every exception but \<open>SystemExit\<close> and turns it into a
  status text; \<open>finally\<close> schedules \<open>finish_measurement\<close> on every way out.
\<close>

definition measure_thread ::
  "real \<Rightarrow> real \<Rightarrow> string \<Rightarrow> string option \<Rightarrow> world \<Rightarrow> (unit, unit) outcome" where
  "measure_thread adjust minlimit disconnect_address command w =
     (case measure_thread_try adjust minlimit disconnect_address command w of
        Stalled u w \<Rightarrow> Stalled () w
      | Returned u w \<Rightarrow> Returned () (w\<lparr>idle_added := Suc (idle_added w)\<rparr>)
      | Raised e w \<Rightarrow>
          (case e of
             SystemExit msg \<Rightarrow> Raised e (w\<lparr>idle_added := Suc (idle_added w)\<rparr>)
           | _ \<Rightarrow>
               Returned ()
                 (w\<lparr>status_message := Error_message e, idle_added := Suc (idle_added w)\<rparr>)))"

section \<open>Notions used in the statements\<close>

text \<open>A complete group: every axis reports the raw value \<open>v\<close>, then the
  report-complete marker. The initial world has the values the module gives its globals,
  a board that is found at once, and a flag that nobody clears.\<close>

definition frame :: "int \<Rightarrow> read list" where
  "frame v = [Event (axis ABS_HAT1X v), Event (axis ABS_HAT0X v), Event (axis ABS_HAT0Y v),
     Event (axis ABS_HAT1Y v), Event (sync_report 0)]"

definition start :: "read list \<Rightarrow> world" where
  "start reads = \<lparr>feed = reads, lookups = [True], measuring = (\<lambda>n. True), looks = 0,
     closes = 0, status_message = Waiting_for_board, device_found = False, current_weight = 0,
     ran = [], idle_added = 0\<rparr>"

text \<open>\<open>last_value c es\<close> is the value of the last event of \<open>es\<close> with code \<open>c\<close>;
  \<open>held c es p\<close> is what the slot of \<open>c\<close> holds after \<open>es\<close> when it held \<open>p\<close> before.\<close>

definition is_axis :: "input_event \<Rightarrow> bool" where
  "is_axis e \<longleftrightarrow> ev_code e \<in> {ABS_HAT1X, ABS_HAT0X, ABS_HAT0Y, ABS_HAT1Y}"

fun last_value :: "nat \<Rightarrow> input_event list \<Rightarrow> int option" where
  "last_value c [] = None"
| "last_value c (e # es) =
     (case last_value c es of
        Some v \<Rightarrow> Some v
      | None \<Rightarrow> if ev_code e = c then Some (ev_value e) else None)"

definition held :: "nat \<Rightarrow> input_event list \<Rightarrow> real option \<Rightarrow> real option" where
  "held c es p = (case last_value c es of None \<Rightarrow> p | Some v \<Rightarrow> Some (real_of_int v / 100))"

text \<open>
  The pattern of the spec, \<open>([0-9a-f]{2}:){5}[0-9a-f]{2}\<close> without regard to case, read
  as a pattern for the whole address: seventeen characters, colons at every third place
  and hexadecimal digits elsewhere.
\<close>

definition mac_address :: "string \<Rightarrow> bool" where
  "mac_address s \<longleftrightarrow>
     length s = 17
     \<and> list_all (\<lambda>i. s ! i = CHR '':'') [2, 5, 8, 11, 14]
     \<and> list_all (\<lambda>i. hex_digit (s ! i)) [0, 1, 3, 4, 6, 7, 9, 10, 12, 13, 15, 16]"

section \<open>Properties\<close>

subsection \<open>The decoder on a run of axis events\<close>

lemma held_Nil: "held c [] p = p"
  by (simp add: held_def)

lemma held_Cons:
  "held c (e # es) p = held c es (if ev_code e = c then Some (real_of_int (ev_value e) / 100) else p)"
  by (simp add: held_def split: option.splits)

lemma measure_loop_axes:
  "\<forall>e\<in>set es. is_axis e \<Longrightarrow>
   measure_loop [p, q, r, s] (map Event es @ rest) =
   measure_loop
     [held ABS_HAT1X es p, held ABS_HAT0X es q, held ABS_HAT0Y es r, held ABS_HAT1Y es s] rest"
proof (induction es arbitrary: p q r s)
  case Nil
  show ?case by (simp add: held_Nil)
next
  case (Cons e es)
  from Cons.prems have ax: "is_axis e" and rest: "\<forall>e\<in>set es. is_axis e" by simp_all
  from ax consider "ev_code e = ABS_HAT1X" | "ev_code e = ABS_HAT0X"
    | "ev_code e = ABS_HAT0Y" | "ev_code e = ABS_HAT1Y"
    by (auto simp: is_axis_def)
  then show ?case
  proof cases
    case 1
    then show ?thesis using Cons.IH[OF rest] by (simp add: held_Cons ecodes_defs)
  next
    case 2
    then show ?thesis using Cons.IH[OF rest] by (simp add: held_Cons ecodes_defs)
  next
    case 3
    then show ?thesis using Cons.IH[OF rest] by (simp add: held_Cons ecodes_defs)
  next
    case 4
    then show ?thesis using Cons.IH[OF rest] by (simp add: held_Cons ecodes_defs)
  qed
qed

lemma report_complete:
  "measure_loop [Some a, Some b, Some c, Some d] (Event (sync_report 0) # rest) =
     Measured (a + b + c + d) rest"
  by (simp add: sync_report_def ecodes_defs)

lemma report_incomplete:
  "None \<in> set data \<Longrightarrow>
   measure_loop data (Event (sync_report 0) # rest) = measure_loop unset rest"
  by (simp add: sync_report_def ecodes_defs)

subsection \<open>The collection loop, path by path\<close>

lemma read_loop_cancelled:
  "\<not> measuring w (looks w) \<Longrightarrow> read_loop samples threshold data w = Returned data (close (looked w))"
  by (subst read_loop.simps) simp

lemma read_loop_aborted:
  "measuring w (looks w) \<Longrightarrow> get_raw_measurement (feed w) = Aborted rest \<Longrightarrow>
   read_loop samples threshold data w =
     Raised (SystemExit ''ERROR: User pressed board button while measuring, aborting.'')
       ((looked w)\<lparr>feed := rest\<rparr>)"
  by (subst read_loop.simps) simp

lemma read_loop_failed:
  "measuring w (looks w) \<Longrightarrow> get_raw_measurement (feed w) = Failed rest \<Longrightarrow>
   read_loop samples threshold data w = Raised OSError ((looked w)\<lparr>feed := rest\<rparr>)"
  by (subst read_loop.simps) simp

lemma read_loop_polling:
  "measuring w (looks w) \<Longrightarrow> get_raw_measurement (feed w) = Polling d \<Longrightarrow>
   read_loop samples threshold data w = Stalled data ((looked w)\<lparr>feed := []\<rparr>)"
  by (subst read_loop.simps) simp

lemma read_loop_stepped_off:
  "measuring w (looks w) \<Longrightarrow> get_raw_measurement (feed w) = Measured m rest \<Longrightarrow>
   data \<noteq> [] \<Longrightarrow> m < threshold \<Longrightarrow>
   read_loop samples threshold data w =
     Returned data (close ((looked w)\<lparr>feed := rest, status_message := Stepped_off\<rparr>))"
  by (subst read_loop.simps) simp

lemma read_loop_ignored:
  "measuring w (looks w) \<Longrightarrow> get_raw_measurement (feed w) = Measured m rest \<Longrightarrow>
   m < threshold \<Longrightarrow>
   read_loop samples threshold [] w = read_loop samples threshold [] ((looked w)\<lparr>feed := rest\<rparr>)"
  by (subst read_loop.simps) simp

lemma read_loop_enough:
  "measuring w (looks w) \<Longrightarrow> get_raw_measurement (feed w) = Measured m rest \<Longrightarrow>
   \<not> m < threshold \<Longrightarrow> samples \<le> int (length data) + 1 \<Longrightarrow>
   read_loop samples threshold data w =
     Returned (data @ [m]) (close (started (data @ [m]) ((looked w)\<lparr>feed := rest\<rparr>)))"
  by (subst read_loop.simps) (simp add: Let_def)

lemma read_loop_more:
  "measuring w (looks w) \<Longrightarrow> get_raw_measurement (feed w) = Measured m rest \<Longrightarrow>
   \<not> m < threshold \<Longrightarrow> \<not> samples \<le> int (length data) + 1 \<Longrightarrow>
   read_loop samples threshold data w =
     read_loop samples threshold (data @ [m])
       (progress samples (data @ [m]) (started (data @ [m]) ((looked w)\<lparr>feed := rest\<rparr>)))"
  by (subst read_loop.simps) (simp add: Let_def)

lemma read_loop_induct2 [case_names cancelled aborted failed polling stepped_off ignored enough more]:
  assumes cancelled: "\<And>samples threshold data w. \<not> measuring w (looks w) \<Longrightarrow> P samples threshold data w"
    and aborted: "\<And>samples threshold data w rest.
      measuring w (looks w) \<Longrightarrow> get_raw_measurement (feed w) = Aborted rest \<Longrightarrow>
      P samples threshold data w"
    and failed: "\<And>samples threshold data w rest.
      measuring w (looks w) \<Longrightarrow> get_raw_measurement (feed w) = Failed rest \<Longrightarrow>
      P samples threshold data w"
    and polling: "\<And>samples threshold data w d.
      measuring w (looks w) \<Longrightarrow> get_raw_measurement (feed w) = Polling d \<Longrightarrow>
      P samples threshold data w"
    and stepped_off: "\<And>samples threshold data w m rest.
      measuring w (looks w) \<Longrightarrow> get_raw_measurement (feed w) = Measured m rest \<Longrightarrow>
      data \<noteq> [] \<Longrightarrow> m < threshold \<Longrightarrow> P samples threshold data w"
    and ignored: "\<And>samples threshold w m rest.
      measuring w (looks w) \<Longrightarrow> get_raw_measurement (feed w) = Measured m rest \<Longrightarrow>
      m < threshold \<Longrightarrow> P samples threshold [] ((looked w)\<lparr>feed := rest\<rparr>) \<Longrightarrow>
      P samples threshold [] w"
    and enough: "\<And>samples threshold data w m rest.
      measuring w (looks w) \<Longrightarrow> get_raw_measurement (feed w) = Measured m rest \<Longrightarrow>
      \<not> m < threshold \<Longrightarrow> samples \<le> int (length data) + 1 \<Longrightarrow> P samples threshold data w"
    and more: "\<And>samples threshold data w m rest.
      measuring w (looks w) \<Longrightarrow> get_raw_measurement (feed w) = Measured m rest \<Longrightarrow>
      \<not> m < threshold \<Longrightarrow> \<not> samples \<le> int (length data) + 1 \<Longrightarrow>
      P samples threshold (data @ [m])
        (progress samples (data @ [m]) (started (data @ [m]) ((looked w)\<lparr>feed := rest\<rparr>))) \<Longrightarrow>
      P samples threshold data w"
  shows "P samples threshold data w"
proof (induction samples threshold data w rule: read_loop.induct)
  case (1 samples threshold data w)
  show ?case
  proof (cases "measuring w (looks w)")
    case False
    then show ?thesis by (rule cancelled)
  next
    case on: True
    then have on': "\<not> \<not> measuring w (looks w)" by simp
    show ?thesis
    proof (cases "get_raw_measurement (feed w)")
      case (Aborted rest)
      with on show ?thesis by (rule aborted)
    next
      case (Failed rest)
      with on show ?thesis by (rule failed)
    next
      case (Polling d)
      with on show ?thesis by (rule polling)
    next
      case (Measured m rest)
      show ?thesis
      proof (cases "m < threshold")
        case low: True
        show ?thesis
        proof (cases "data = []")
          case True
          have "P samples threshold data ((looked w)\<lparr>feed := rest\<rparr>)"
            using True low by (intro "1.IH"(1)[OF on' Measured]) simp_all
          then show ?thesis using ignored[OF on Measured low] True by simp
        next
          case False
          with on Measured show ?thesis using low by (rule stepped_off)
        qed
      next
        case high: False
        show ?thesis
        proof (cases "samples \<le> int (length data) + 1")
          case True
          with on Measured high show ?thesis by (rule enough)
        next
          case False
          have "P samples threshold (data @ [m])
            (progress samples (data @ [m]) (started (data @ [m]) ((looked w)\<lparr>feed := rest\<rparr>)))"
            using high False by (intro "1.IH"(2)[OF on' Measured]) simp_all
          with on Measured high False show ?thesis by (rule more)
        qed
      qed
    qed
  qed
qed

subsection \<open>What the loop keeps\<close>

lemma looked_fields [simp]:
  "feed (looked w) = feed w" "lookups (looked w) = lookups w" "measuring (looked w) = measuring w"
  "looks (looked w) = Suc (looks w)" "closes (looked w) = closes w"
  "status_message (looked w) = status_message w" "device_found (looked w) = device_found w"
  "current_weight (looked w) = current_weight w" "ran (looked w) = ran w"
  "idle_added (looked w) = idle_added w"
  by (simp_all add: looked_def)

lemma close_fields [simp]:
  "feed (close w) = feed w" "lookups (close w) = lookups w" "measuring (close w) = measuring w"
  "looks (close w) = looks w" "closes (close w) = Suc (closes w)"
  "status_message (close w) = status_message w" "device_found (close w) = device_found w"
  "current_weight (close w) = current_weight w" "ran (close w) = ran w"
  "idle_added (close w) = idle_added w"
  by (simp_all add: close_def)

lemma started_fields [simp]:
  "feed (started d w) = feed w" "lookups (started d w) = lookups w"
  "measuring (started d w) = measuring w"
  "looks (started d w) = looks w" "closes (started d w) = closes w"
  "device_found (started d w) = device_found w"
  "current_weight (started d w) = current_weight w" "ran (started d w) = ran w"
  "idle_added (started d w) = idle_added w"
  by (simp_all add: started_def)

lemma progress_fields [simp]:
  "feed (progress n d w) = feed w" "lookups (progress n d w) = lookups w"
  "measuring (progress n d w) = measuring w"
  "looks (progress n d w) = looks w" "closes (progress n d w) = closes w"
  "device_found (progress n d w) = device_found w"
  "current_weight (progress n d w) = current_weight w" "ran (progress n d w) = ran w"
  "idle_added (progress n d w) = idle_added w"
  by (simp_all add: progress_def)

lemma read_loop_closes:
  "(case read_loop samples threshold data w of
      Returned d w' \<Rightarrow> closes w' = Suc (closes w)
    | Raised e w' \<Rightarrow> closes w' = closes w
    | Stalled d w' \<Rightarrow> closes w' = closes w)"
proof (induction samples threshold data w rule: read_loop_induct2)
  case (cancelled samples threshold data w)
  then show ?case by (simp add: read_loop_cancelled)
next
  case (aborted samples threshold data w rest)
  then show ?case by (simp add: read_loop_aborted)
next
  case (failed samples threshold data w rest)
  then show ?case by (simp add: read_loop_failed)
next
  case (polling samples threshold data w d)
  then show ?case by (simp add: read_loop_polling)
next
  case (stepped_off samples threshold data w m rest)
  then show ?case by (simp add: read_loop_stepped_off)
next
  case (ignored samples threshold w m rest)
  then show ?case by (auto simp: read_loop_ignored split: outcome.splits)
next
  case (enough samples threshold data w m rest)
  then show ?case by (simp add: read_loop_enough)
next
  case (more samples threshold data w m rest)
  then show ?case by (auto simp: read_loop_more split: outcome.splits)
qed


lemma read_loop_window:
  assumes "I data"
    and "\<And>d m. I d \<Longrightarrow> \<not> m < threshold \<Longrightarrow> \<not> samples \<le> int (length d) + 1 \<Longrightarrow> I (d @ [m])"
    and "\<And>d. I d \<Longrightarrow> Q d"
    and "\<And>d m. I d \<Longrightarrow> \<not> m < threshold \<Longrightarrow> samples \<le> int (length d) + 1 \<Longrightarrow> Q (d @ [m])"
  shows "case read_loop samples threshold data w of
      Returned d w' \<Rightarrow> Q d
    | Raised e w' \<Rightarrow> True
    | Stalled d w' \<Rightarrow> Q d"
  using assms
proof (induction samples threshold data w rule: read_loop_induct2)
  case (cancelled samples threshold data w)
  then show ?case by (simp add: read_loop_cancelled)
next
  case (aborted samples threshold data w rest)
  then show ?case by (simp add: read_loop_aborted)
next
  case (failed samples threshold data w rest)
  then show ?case by (simp add: read_loop_failed)
next
  case (polling samples threshold data w d)
  then show ?case by (simp add: read_loop_polling)
next
  case (stepped_off samples threshold data w m rest)
  then show ?case by (simp add: read_loop_stepped_off)
next
  case (ignored samples threshold w m rest)
  have "case read_loop samples threshold [] ((looked w)\<lparr>feed := rest\<rparr>) of
      Returned d w' \<Rightarrow> Q d | Raised e w' \<Rightarrow> True | Stalled d w' \<Rightarrow> Q d"
    by (rule ignored.IH) (fact ignored.prems)+
  then show ?case by (simp add: read_loop_ignored[OF ignored.hyps(1-3)])
next
  case (enough samples threshold data w m rest)
  have "Q (data @ [m])" by (rule enough.prems(4)) (fact enough.prems(1) enough.hyps)+
  then show ?case by (simp add: read_loop_enough[OF enough.hyps])
next
  case (more samples threshold data w m rest)
  have "I (data @ [m])" by (rule more.prems(2)) (fact more.prems(1) more.hyps)+
  then have "case read_loop samples threshold (data @ [m])
       (progress samples (data @ [m]) (started (data @ [m]) ((looked w)\<lparr>feed := rest\<rparr>))) of
      Returned d w' \<Rightarrow> Q d | Raised e w' \<Rightarrow> True | Stalled d w' \<Rightarrow> Q d"
    by (rule more.IH) (fact more.prems(2-4))+
  then show ?case by (simp add: read_loop_more[OF more.hyps])
qed


lemma read_loop_threshold:
  assumes "list_all (\<lambda>x. threshold \<le> x) data"
  shows "case read_loop samples threshold data w of
      Returned d w' \<Rightarrow> list_all (\<lambda>x. threshold \<le> x) d
    | Raised e w' \<Rightarrow> True
    | Stalled d w' \<Rightarrow> list_all (\<lambda>x. threshold \<le> x) d"
  by (rule read_loop_window[where I = "list_all (\<lambda>x. threshold \<le> x)"]) (use assms in simp_all)

lemma read_loop_bounded:
  assumes "data = [] \<or> int (length data) < samples"
  shows "case read_loop samples threshold data w of
      Returned d w' \<Rightarrow> int (length d) \<le> max 1 samples
    | Raised e w' \<Rightarrow> True
    | Stalled d w' \<Rightarrow> int (length d) \<le> max 1 samples"
  by (rule read_loop_window[where I = "\<lambda>d. d = [] \<or> int (length d) < samples"])
    (use assms in auto)

lemma frame_sample:
  "get_raw_measurement (frame v @ rest) = Measured (4 * (real_of_int v / 100)) rest"
  by (simp add: frame_def get_raw_measurement_def unset_def axis_def sync_report_def ecodes_defs)

subsection \<open>The claims about the decoder and the collection loop\<close>

text \<open>
  C1. Take any run of axis events in which each of the four axes receives a raw value (in
  any order, the last value of an axis counts), followed by \<open>SYN_REPORT\<close> with value
  0. \<open>get_raw_measurement\<close> returns once, right at the marker, with the sum of the four
  raw values each divided by 100. The slots are local to the call: the next call starts
  with all four unset, so a marker that followed at once would give no second sample.
\<close>

theorem complete_group_sample:
  assumes "\<forall>e\<in>set es. is_axis e"
    and "last_value ABS_HAT1X es = Some a"
    and "last_value ABS_HAT0X es = Some b"
    and "last_value ABS_HAT0Y es = Some c"
    and "last_value ABS_HAT1Y es = Some d"
  shows "get_raw_measurement (map Event es @ Event (sync_report 0) # rest) =
           Measured (real_of_int a / 100 + real_of_int b / 100 + real_of_int c / 100
             + real_of_int d / 100) rest
         \<and> get_raw_measurement (Event (sync_report 0) # rest) = get_raw_measurement rest"
proof
  have "get_raw_measurement (map Event es @ Event (sync_report 0) # rest) =
        measure_loop [held ABS_HAT1X es None, held ABS_HAT0X es None, held ABS_HAT0Y es None,
          held ABS_HAT1Y es None] (Event (sync_report 0) # rest)"
    unfolding get_raw_measurement_def unset_def using assms(1) by (rule measure_loop_axes)
  also have "\<dots> = measure_loop [Some (real_of_int a / 100), Some (real_of_int b / 100),
      Some (real_of_int c / 100), Some (real_of_int d / 100)] (Event (sync_report 0) # rest)"
    using assms(2-5) by (simp only: held_def option.case)
  finally show "get_raw_measurement (map Event es @ Event (sync_report 0) # rest) =
           Measured (real_of_int a / 100 + real_of_int b / 100 + real_of_int c / 100
             + real_of_int d / 100) rest"
    by (simp only: report_complete)
  show "get_raw_measurement (Event (sync_report 0) # rest) = get_raw_measurement rest"
    unfolding get_raw_measurement_def by (rule report_incomplete) (simp add: unset_def)
qed

text \<open>C1 at one interleaving: bottom left, top left, bottom right, top right.\<close>

theorem complete_group_sample_witness:
  "get_raw_measurement
     (map Event [axis ABS_HAT0Y 2100, axis ABS_HAT1X 2000, axis ABS_HAT1Y 2200, axis ABS_HAT0X 2300]
        @ Event (sync_report 0) # [NoEvent]) = Measured 86 [NoEvent]"
proof -
  let ?es = "[axis ABS_HAT0Y 2100, axis ABS_HAT1X 2000, axis ABS_HAT1Y 2200, axis ABS_HAT0X 2300]"
  have 1: "\<forall>e\<in>set ?es. is_axis e" by (simp add: is_axis_def axis_def)
  have 2: "last_value ABS_HAT1X ?es = Some 2000" by (simp add: axis_def ecodes_defs)
  have 3: "last_value ABS_HAT0X ?es = Some 2300" by (simp add: axis_def ecodes_defs)
  have 4: "last_value ABS_HAT0Y ?es = Some 2100" by (simp add: axis_def ecodes_defs)
  have 5: "last_value ABS_HAT1Y ?es = Some 2200" by (simp add: axis_def ecodes_defs)
  from complete_group_sample[OF 1 2 3 4 5, of "[NoEvent]"] show ?thesis by simp
qed

text \<open>
  C5. When the report-complete marker arrives while a slot is still unset, the group is
  dropped: the loop goes on exactly as a fresh call would on the reads that follow
  (all four slots cleared, nothing returned or raised for the group), so no value of
  the dropped group can reach a later sample; with no reads left the loop polls on with
  unset slots.
\<close>

theorem incomplete_group_discarded:
  assumes "None \<in> set data"
  shows "measure_loop data (Event (sync_report 0) # rest) = get_raw_measurement rest
         \<and> measure_loop data [Event (sync_report 0)] = Polling unset"
proof
  show "measure_loop data (Event (sync_report 0) # rest) = get_raw_measurement rest"
    unfolding get_raw_measurement_def using assms by (rule report_incomplete)
  have "measure_loop data [Event (sync_report 0)] = measure_loop unset []"
    using assms by (rule report_incomplete)
  then show "measure_loop data [Event (sync_report 0)] = Polling unset"
    by (simp only: measure_loop.simps)
qed

text \<open>C5 with the top-right slot unset: the sample that follows is the one of the next
  group alone (80, not 21 + 20 + 21 + 21).\<close>

theorem incomplete_group_discarded_witness:
  "measure_loop [Some 21, None, Some 21, Some 21] (Event (sync_report 0) # frame 2000) = Measured 80 []
   \<and> measure_loop [Some 21, None, Some 21, Some 21] [Event (sync_report 0)] = Polling unset"
proof -
  have "None \<in> set [Some (21::real), None, Some 21, Some 21]" by simp
  from incomplete_group_discarded[OF this, of "frame 2000"] show ?thesis
    using frame_sample[of 2000 "[]"] by simp
qed

text \<open>The same for a whole group read by one call: a run of axis events that leaves out
  an axis, then the marker.\<close>

lemma missing_axis_discarded:
  assumes "\<forall>e\<in>set es. is_axis e"
    and "last_value ABS_HAT1X es = None \<or> last_value ABS_HAT0X es = None
       \<or> last_value ABS_HAT0Y es = None \<or> last_value ABS_HAT1Y es = None"
  shows "get_raw_measurement (map Event es @ Event (sync_report 0) # rest) = get_raw_measurement rest"
proof -
  let ?data = "[held ABS_HAT1X es None, held ABS_HAT0X es None, held ABS_HAT0Y es None,
          held ABS_HAT1Y es None]"
  have "get_raw_measurement (map Event es @ Event (sync_report 0) # rest) =
        measure_loop ?data (Event (sync_report 0) # rest)"
    unfolding get_raw_measurement_def unset_def using assms(1) by (rule measure_loop_axes)
  moreover have "None \<in> set ?data" using assms(2) by (auto simp: held_def)
  ultimately show ?thesis by (simp only: report_incomplete get_raw_measurement_def)
qed

text \<open>
  C3. In any iteration of the collection loop that starts with a non-empty window and the
  \<open>measuring\<close> flag set, a decoded sample strictly below the threshold ends
  \<open>read_data\<close>: the device is closed, the status says the user stepped off, and the
  window is returned as it was, without that sample.
\<close>

theorem step_off_ends_collection:
  assumes "data \<noteq> []"
    and "measuring w (looks w)"
    and "get_raw_measurement (feed w) = Measured m rest"
    and "m < threshold"
  shows "read_loop samples threshold data w =
           Returned data (close ((looked w)\<lparr>feed := rest, status_message := Stepped_off\<rparr>))"
  using assms(2,3,1,4) by (rule read_loop_stepped_off)

lemma start_fields [simp]:
  "feed (start reads) = reads" "measuring (start reads) n" "looks (start reads) = 0"
  "closes (start reads) = 0"
  by (simp_all add: start_def)

text \<open>C3 with two samples buffered and a sample of 18 kg against a threshold of 20.\<close>

theorem step_off_ends_collection_witness:
  "read_loop 200 20 [84, 88] (start (frame 450 @ frame 2100)) =
     Returned [84, 88]
       ((start (frame 2100))\<lparr>looks := 1, closes := 1, status_message := Stepped_off\<rparr>)"
proof -
  have "get_raw_measurement (feed (start (frame 450 @ frame 2100))) = Measured 18 (frame 2100)"
    using frame_sample[of 450 "frame 2100"] by simp
  from step_off_ends_collection[OF _ _ this, of "[84, 88]" 20 200] show ?thesis
    by (simp add: start_def looked_def close_def)
qed

text \<open>The whole run: two samples above the threshold, then 18 kg.\<close>

lemma scenario_step_off:
  "read_data 200 20 (start (frame 2100 @ frame 2200 @ frame 450 @ frame 2100)) =
     Returned [84, 88]
       ((start (frame 2100))\<lparr>looks := 3, closes := 1, status_message := Stepped_off\<rparr>)"
  by (simp add: read_data_def start_def read_loop.simps frame_sample looked_def close_def
      started_def progress_def)



lemma no_reads_polling: "get_raw_measurement [] = Polling unset"
  by (simp add: get_raw_measurement_def)

text \<open>The whole run: two light samples are dropped, the third opens the window.\<close>

lemma scenario_first_sample:
  "read_data 200 20 (start (frame 450 @ frame 400 @ frame 2100)) =
     Stalled [84] ((start [])\<lparr>looks := 4, status_message := Measurement_started\<rparr>)"
  by (simp add: read_data_def start_def read_loop.simps frame_sample
      frame_sample[of _ "[]", simplified] looked_def close_def started_def progress_def
      no_reads_polling)

text \<open>
  C7, counterexample. The board button is the first event: \<open>read_data\<close> ends by
  \<open>SystemExit\<close> and \<open>device.close()\<close> has not been called.
\<close>

theorem abort_leaves_device_open:
  "read_data 200 20 (start [Event (button_press 1)]) =
     Raised (SystemExit ''ERROR: User pressed board button while measuring, aborting.'')
       ((start [])\<lparr>looks := 1\<rparr>)
   \<and> closes ((start [])\<lparr>looks := 1\<rparr>) = 0"
  by (simp add: read_data_def start_def read_loop.simps get_raw_measurement_def unset_def
      button_press_def ecodes_defs looked_def)

text \<open>
  C7, as amended. Whenever \<open>read_data\<close> returns (sample cap reached, user stepped off,
  or the flag found cleared), it has closed the device exactly once; when it ends by an
  exception (board button, failing read) it has not closed it.
\<close>

theorem device_closed_on_return:
  "case read_data samples threshold w of
     Returned d w' \<Rightarrow> closes w' = Suc (closes w)
   | Raised e w' \<Rightarrow> closes w' = closes w
   | Stalled d w' \<Rightarrow> closes w' = closes w"
  unfolding read_data_def by (rule read_loop_closes)

text \<open>
  C9, counterexample. With a cap of 0 the first accepted sample is appended before the cap
  is looked at: the window returned holds one entry.
\<close>

theorem window_exceeds_zero_cap:
  "read_data 0 20 (start (frame 2100)) =
     Returned [84] ((start [])\<lparr>looks := 1, closes := 1, status_message := Measurement_started\<rparr>)
   \<and> \<not> int (length [84::real]) \<le> 0"
  by (simp add: read_data_def start_def read_loop.simps frame_sample[of _ "[]", simplified]
      looked_def close_def started_def)

text \<open>
  C9, as amended. The window that \<open>read_data\<close> holds or returns never has more than
  \<open>max 1 samples\<close> entries (so never more than \<open>samples\<close> when that is at least 1),
  and the iteration whose sample brings the window to the cap returns at once, with the
  reads after that sample left on the device.
\<close>

theorem window_bounded:
  "(case read_data samples threshold w of
      Returned d w' \<Rightarrow> int (length d) \<le> max 1 samples
    | Raised e w' \<Rightarrow> True
    | Stalled d w' \<Rightarrow> int (length d) \<le> max 1 samples)
   \<and> (measuring w (looks w) \<and> get_raw_measurement (feed w) = Measured m rest
        \<and> \<not> m < threshold \<and> samples \<le> int (length data) + 1 \<longrightarrow>
      (case read_loop samples threshold data w of
         Returned d w' \<Rightarrow> d = data @ [m] \<and> feed w' = rest
       | Raised e w' \<Rightarrow> False
       | Stalled d w' \<Rightarrow> False))"
proof (intro conjI impI)
  show "case read_data samples threshold w of
      Returned d w' \<Rightarrow> int (length d) \<le> max 1 samples
    | Raised e w' \<Rightarrow> True
    | Stalled d w' \<Rightarrow> int (length d) \<le> max 1 samples"
    unfolding read_data_def by (rule read_loop_bounded) simp
next
  assume "measuring w (looks w) \<and> get_raw_measurement (feed w) = Measured m rest
        \<and> \<not> m < threshold \<and> samples \<le> int (length data) + 1"
  then show "case read_loop samples threshold data w of
         Returned d w' \<Rightarrow> d = data @ [m] \<and> feed w' = rest
       | Raised e w' \<Rightarrow> False
       | Stalled d w' \<Rightarrow> False"
    by (simp add: read_loop_enough)
qed

text \<open>C9 (amended) with a cap of 2: the third group is not read.\<close>

theorem window_bounded_witness:
  "read_data 2 20 (start (frame 2100 @ frame 2200 @ frame 2300)) =
     Returned [84, 88]
       ((start (frame 2300))\<lparr>looks := 2, closes := 1, status_message := Measurement_started\<rparr>)
   \<and> (case read_loop 2 20 [84] ((start (frame 2200 @ frame 2300))\<lparr>looks := 1\<rparr>) of
         Returned d w' \<Rightarrow> d = [84] @ [88] \<and> feed w' = frame 2300
       | Raised e w' \<Rightarrow> False
       | Stalled d w' \<Rightarrow> False)"
proof -
  have run: "read_data 2 20 (start (frame 2100 @ frame 2200 @ frame 2300)) =
     Returned [84, 88]
       ((start (frame 2300))\<lparr>looks := 2, closes := 1, status_message := Measurement_started\<rparr>)"
    by (simp add: read_data_def start_def read_loop.simps frame_sample looked_def close_def
        started_def progress_def)
  have "get_raw_measurement (feed ((start (frame 2200 @ frame 2300))\<lparr>looks := 1\<rparr>)) =
      Measured 88 (frame 2300)"
    using frame_sample[of 2200 "frame 2300"] by simp
  with window_bounded[where samples = 2 and threshold = 20
      and w = "(start (frame 2200 @ frame 2300))\<lparr>looks := 1\<rparr>" and m = 88
      and rest = "frame 2300" and data = "[84]"] run
  show ?thesis by (simp add: start_def)
qed

text \<open>
  C10. Every element of the window that \<open>read_data\<close> returns is at or above the
  threshold.
\<close>

theorem window_above_threshold:
  assumes "read_data samples threshold w = Returned d w'"
  shows "\<forall>x\<in>set d. threshold \<le> x"
proof -
  have "case read_data samples threshold w of
      Returned d w' \<Rightarrow> list_all (\<lambda>x. threshold \<le> x) d
    | Raised e w' \<Rightarrow> True
    | Stalled d w' \<Rightarrow> list_all (\<lambda>x. threshold \<le> x) d"
    unfolding read_data_def by (rule read_loop_threshold) simp
  with assms show ?thesis by (simp add: list_all_iff)
qed

text \<open>C10 on a run with a light sample before the window opens and one that ends it.\<close>

theorem window_above_threshold_witness:
  "read_data 200 20 (start (frame 450 @ frame 2100 @ frame 2200 @ frame 450 @ frame 2100)) =
     Returned [84, 88]
       ((start (frame 2100))\<lparr>looks := 4, closes := 1, status_message := Stepped_off\<rparr>)
   \<and> list_all (\<lambda>x. 20 \<le> x) [84, 88 :: real]"
proof -
  have run: "read_data 200 20 (start (frame 450 @ frame 2100 @ frame 2200 @ frame 450 @ frame 2100)) =
     Returned [84, 88]
       ((start (frame 2100))\<lparr>looks := 4, closes := 1, status_message := Stepped_off\<rparr>)"
    by (simp add: read_data_def start_def read_loop.simps frame_sample looked_def close_def
        started_def progress_def)
  from window_above_threshold[OF run] run show ?thesis by (simp add: list_all_iff)
qed

subsection \<open>The claim about the aggregation\<close>

text \<open>
  C2. The aggregation step fails with \<open>StatisticsError\<close> (the spec's
  \<open>InsufficientData\<close>) on the empty window. On a non-empty window it gives the median
  plus \<open>adjust\<close>, nothing else applied: the middle element of the sorted window when
  the count is odd, the mean of the two middle elements when it is even.
  \<open>measure_weight\<close> calls it on whatever \<open>read_data\<close> returns; \<open>measure_thread\<close>
  calls it only on a non-empty window.
\<close>

theorem final_weight_median:
  "final_weight [] adjust = Inl StatisticsError
   \<and> (window \<noteq> [] \<longrightarrow>
        final_weight window adjust =
          Inr ((if odd (length window) then sort window ! (length window div 2)
                else (sort window ! (length window div 2 - 1)
                      + sort window ! (length window div 2)) / 2)
               + adjust))"
proof -
  have "sort window = [] \<longleftrightarrow> window = []"
    using length_sort[of "\<lambda>x. x" window] by (simp only: length_0_conv[symmetric])
  then show ?thesis
    by (simp add: final_weight_def median_def Let_def odd_iff_mod_2_eq_one)
qed

text \<open>C2 on a window of three and on a window of four, with an adjustment of -2.\<close>

theorem final_weight_median_witness:
  "final_weight [88, 80, 84] (- 2) = Inr 82 \<and> final_weight [88, 80, 84, 90] (- 2) = Inr 84"
  using final_weight_median[of "- 2" "[88, 80, 84]"] final_weight_median[of "- 2" "[88, 80, 84, 90]"]
  by simp

text \<open>A window of equal samples (the 200 samples of 84.0 of the spec's first scenario).\<close>

lemma final_weight_replicate:
  "0 < n \<Longrightarrow> final_weight (replicate n x) adjust = Inr (x + adjust)"
  by (auto simp: final_weight_def median_def Let_def)

subsection \<open>The claim about the disconnect address\<close>

lemma hex_groups_Suc:
  "hex_groups (Suc n) s = Some r \<Longrightarrow>
   \<exists>a b s'. s = a # b # CHR '':'' # s' \<and> hex_digit a \<and> hex_digit b \<and> hex_groups n s' = Some r"
  by (induction "Suc n" s rule: hex_groups.induct) (auto split: if_splits)

lemma hex_groups_5:
  assumes "hex_groups 5 s = Some r"
  shows "\<exists>a1 b1 a2 b2 a3 b3 a4 b4 a5 b5.
     s = a1 # b1 # CHR '':'' # a2 # b2 # CHR '':'' # a3 # b3 # CHR '':'' # a4 # b4 # CHR '':''
       # a5 # b5 # CHR '':'' # r
     \<and> hex_digit a1 \<and> hex_digit b1 \<and> hex_digit a2 \<and> hex_digit b2 \<and> hex_digit a3
     \<and> hex_digit b3 \<and> hex_digit a4 \<and> hex_digit b4 \<and> hex_digit a5 \<and> hex_digit b5"
proof -
  have "hex_groups (Suc (Suc (Suc (Suc (Suc 0))))) s = Some r"
    using assms by (simp add: eval_nat_numeral)
  then obtain a1 b1 s1 where 1: "s = a1 # b1 # CHR '':'' # s1" "hex_digit a1" "hex_digit b1"
      "hex_groups (Suc (Suc (Suc (Suc 0)))) s1 = Some r"
    by (blast dest: hex_groups_Suc)
  then obtain a2 b2 s2 where 2: "s1 = a2 # b2 # CHR '':'' # s2" "hex_digit a2" "hex_digit b2"
      "hex_groups (Suc (Suc (Suc 0))) s2 = Some r"
    by (blast dest: hex_groups_Suc)
  then obtain a3 b3 s3 where 3: "s2 = a3 # b3 # CHR '':'' # s3" "hex_digit a3" "hex_digit b3"
      "hex_groups (Suc (Suc 0)) s3 = Some r"
    by (blast dest: hex_groups_Suc)
  then obtain a4 b4 s4 where 4: "s3 = a4 # b4 # CHR '':'' # s4" "hex_digit a4" "hex_digit b4"
      "hex_groups (Suc 0) s4 = Some r"
    by (blast dest: hex_groups_Suc)
  then obtain a5 b5 s5 where 5: "s4 = a5 # b5 # CHR '':'' # s5" "hex_digit a5" "hex_digit b5"
      "hex_groups 0 s5 = Some r"
    by (blast dest: hex_groups_Suc)
  from 5(4) have "s5 = r" by simp
  with 1 2 3 4 5 show ?thesis by blast
qed

text \<open>What the check of \<open>measure_weight\<close> lets through is such an address, or one
  followed by a single newline.\<close>

lemma address_match_mac:
  assumes "address_match s"
  shows "mac_address s \<or> (\<exists>t. s = t @ [CHR 0x0A] \<and> mac_address t)"
proof -
  from assms obtain r where r: "hex_groups 5 s = Some r"
    by (auto simp: address_match_def split: option.splits)
  with assms obtain a b e where e: "r = a # b # e" "hex_digit a" "hex_digit b"
      "e = [] \<or> e = [CHR 0x0A]"
    by (auto simp: address_match_def split: list.splits)
  from hex_groups_5[OF r] obtain a1 b1 a2 b2 a3 b3 a4 b4 a5 b5 where
    s: "s = a1 # b1 # CHR '':'' # a2 # b2 # CHR '':'' # a3 # b3 # CHR '':'' # a4 # b4 # CHR '':''
       # a5 # b5 # CHR '':'' # r"
    and h: "hex_digit a1" "hex_digit b1" "hex_digit a2" "hex_digit b2" "hex_digit a3"
      "hex_digit b3" "hex_digit a4" "hex_digit b4" "hex_digit a5" "hex_digit b5"
    by blast
  let ?t = "[a1, b1, CHR '':'', a2, b2, CHR '':'', a3, b3, CHR '':'', a4, b4, CHR '':'',
       a5, b5, CHR '':'', a, b]"
  have t: "mac_address ?t" using h e(2,3) by (simp add: mac_address_def)
  from e(4) show ?thesis
  proof
    assume "e = []"
    with s e(1) have "s = ?t" by simp
    with t show ?thesis by simp
  next
    assume "e = [CHR 0x0A]"
    with s e(1) have "s = ?t @ [CHR 0x0A]" by simp
    with t show ?thesis by blast
  qed
qed

lemma address_match_example: "address_match ''00:1e:35:FF:a0:Bc''"
  by (simp add: address_match_def eval_nat_numeral hex_digit_def)

text \<open>
  C8, counterexample. \<open>measure_weight\<close> with the address \<open>not-a-mac\<close> and a board
  that would deliver a complete measurement: it ends by \<open>SystemExit\<close> at once; no
  measurement is made and no weight is returned.
\<close>

theorem invalid_address_exits:
  "measure_weight 0 20 ''not-a-mac'' None False False (start (frame 2100 @ frame 450)) =
     Raised (SystemExit ''ERROR: Invalid device address to disconnect specified.'')
       (start (frame 2100 @ frame 450))"
  by (simp add: measure_weight_def address_match_def eval_nat_numeral hex_digit_def)

text \<open>
  C8, as amended. For every non-empty address that is neither an address of the pattern
  nor one followed by a newline, \<open>measure_weight\<close> raises \<open>SystemExit\<close> before it
  looks for the board: the world is untouched (no lookup, no read, no command run) and
  nothing is measured.
\<close>

theorem invalid_address_rejected:
  assumes "disconnect_address \<noteq> []"
    and "\<not> mac_address disconnect_address"
    and "\<not> (\<exists>t. disconnect_address = t @ [CHR 0x0A] \<and> mac_address t)"
  shows "measure_weight adjust minlimit disconnect_address command terse fake w =
           Raised (SystemExit ''ERROR: Invalid device address to disconnect specified.'') w"
proof -
  have "\<not> address_match disconnect_address"
    using assms(2,3) address_match_mac by blast
  with assms(1) show ?thesis by (simp add: measure_weight_def)
qed

text \<open>C8 (amended) on an address that is one group short, in fake mode.\<close>

theorem invalid_address_rejected_witness:
  "measure_weight 0 20 ''00:1e:35:FF:a0'' (Some ''echo {weight}'') False True (start []) =
     Raised (SystemExit ''ERROR: Invalid device address to disconnect specified.'') (start [])"
proof -
  have 1: "''00:1e:35:FF:a0'' \<noteq> []" by simp
  have 2: "\<not> mac_address ''00:1e:35:FF:a0''" by (simp add: mac_address_def)
  have 3: "\<not> (\<exists>t. ''00:1e:35:FF:a0'' = t @ [CHR 0x0A] \<and> mac_address t)"
    by (auto simp: mac_address_def)
  from invalid_address_rejected[OF 1 2 3] show ?thesis .
qed

subsection \<open>The claim about the board button\<close>







text \<open>Once the board is found and the flag is still set, a \<open>SystemExit\<close> out of
  \<open>read_data\<close> is the way \<open>measure_thread\<close> ends.\<close>

lemma measure_thread_passes_abort:
  assumes "measure_thread_wait (w\<lparr>status_message := Waiting_for_board, device_found := False\<rparr>) =
      Returned True w1"
    and "measuring w1 (looks w1)"
    and "read_data 200 minlimit (looked w1) = Raised (SystemExit msg) w2"
  shows "measure_thread adjust minlimit disconnect_address command w =
      Raised (SystemExit msg) (w2\<lparr>idle_added := Suc (idle_added w2)\<rparr>)"
  using assms by (simp add: measure_thread_def measure_thread_try_def)




subsection \<open>Whole sessions\<close>

text \<open>Three samples, then the user steps off: \<open>measure_thread\<close> publishes the median
  plus the adjustment and runs both hooks. It passes the address on unchecked.\<close>

lemma scenario_measured:
  "measure_thread (- 2) 20 ''not-a-mac'' (Some ''echo {weight}'')
     (start (frame 2100 @ frame 2200 @ frame 2300 @ frame 450 @ frame 100)) =
   Returned ()
     ((start (frame 100))\<lparr>lookups := [], looks := 7,
        closes := 1, status_message := Disconnecting (Done_weight_kg 86),
        device_found := True, current_weight := 86,
        ran := [Run [''/usr/bin/env'', ''bluetoothctl'', ''disconnect'', ''not-a-mac''],
                Run_shell ''echo {weight}'' 86],
        idle_added := 1\<rparr>)"
  by (simp add: measure_thread_def measure_thread_try_def measure_thread_wait.simps
      read_data_def start_def read_loop.simps frame_sample looked_def close_def
      started_def progress_def final_weight_def median_def disconnect_def run_command_def)

text \<open>The flag is cleared between the lookup that finds the board and the look that
  follows the wait: \<open>measure_thread\<close> returns without a call of \<open>read_data\<close>, so the
  device it has just opened is not closed.\<close>

lemma cancel_after_board_found:
  "measure_thread 0 20 [] None ((start (frame 2100))\<lparr>measuring := \<lambda>n. n < 1\<rparr>) =
     Returned ()
       ((start (frame 2100))\<lparr>measuring := \<lambda>n. n < 1, lookups := [], looks := 2, closes := 0,
          status_message := Board_found, device_found := True, idle_added := 1\<rparr>)"
  by (simp add: measure_thread_def measure_thread_try_def measure_thread_wait.simps start_def
      looked_def)

text \<open>\<open>measure_weight\<close> in fake mode, and with the flag clear at its first look (the
  value the module gives \<open>measuring\<close>): the window is empty and the median raises.\<close>

lemma measure_weight_fake:
  "measure_weight adjust minlimit [] None True True w =
     Returned (852 / 10 + adjust) (w\<lparr>status_message := Board_found\<rparr>)"
  by (simp add: measure_weight_def final_weight_replicate disconnect_def run_command_def)

lemma measure_weight_empty_window:
  "measure_weight 0 20 [] None False False ((start (frame 2100))\<lparr>measuring := \<lambda>n. False\<rparr>) =
     Raised StatisticsError
       ((start (frame 2100))\<lparr>measuring := \<lambda>n. False, lookups := [], looks := 1, closes := 1,
          status_message := Board_found\<rparr>)"
  by (simp add: measure_weight_def measure_weight_wait.simps read_data_def read_loop.simps
      start_def looked_def close_def final_weight_def median_def)

end
